theory Spec2Isabelle
  imports Complex_Main "HOL-Library.AList"
begin

section \<open>Text, dictionaries and errors\<close>

text \<open>
  The program is one Python script, \<^verbatim>\<open>gantt_chart.py\<close>: \<^verbatim>\<open>parse_csv\<close> reads a run
  log, \<^verbatim>\<open>generate_gantt\<close> derives the comparison metrics and draws the panels, and
  the \<^verbatim>\<open>__main__\<close> block checks the argument count.

  Text is a \<^typ>\<open>string\<close>: the characters of the file as \<^verbatim>\<open>f.read()\<close> returns them,
  restricted to code points below 256. A Python \<^verbatim>\<open>dict\<close> is an association list
  in insertion order, written with \<^const>\<open>AList.update\<close> (a new key goes to the end, an
  existing key keeps its place and takes the new value) and read with \<^const>\<open>map_of\<close>.
  Every exception the script can raise is a value of \<open>error\<close>; a computation that can
  raise returns \<open>error + 'a\<close>, with \<open>Inl\<close> the exception.
\<close>

datatype error =
    IndexError
  | KeyError string
  | ValueError string
  | ZeroDivisionError
  | FileNotFoundError string

type_synonym 'a result = "error + 'a"

definition bind :: "'a result \<Rightarrow> ('a \<Rightarrow> 'b result) \<Rightarrow> 'b result" where
  "bind m f = (case m of Inl e \<Rightarrow> Inl e | Inr x \<Rightarrow> f x)"

text \<open>A list comprehension whose element expression can raise: the first exception wins.\<close>

fun mapM :: "('a \<Rightarrow> 'b result) \<Rightarrow> 'a list \<Rightarrow> 'b list result" where
  "mapM f [] = Inr []"
| "mapM f (x # xs) = bind (f x) (\<lambda>y. bind (mapM f xs) (\<lambda>ys. Inr (y # ys)))"

type_synonym row = "(string \<times> string) list"

text \<open>\<^verbatim>\<open>d[k]\<close> on a dictionary raises \<^verbatim>\<open>KeyError\<close> for a missing key.\<close>

definition getitem :: "('k \<times> 'v) list \<Rightarrow> 'k \<Rightarrow> string \<Rightarrow> 'v result" where
  "getitem d k name = (case map_of d k of None \<Rightarrow> Inl (KeyError name) | Some v \<Rightarrow> Inr v)"

text \<open>\<^verbatim>\<open>xs[i]\<close> for a non-negative literal index raises \<^verbatim>\<open>IndexError\<close> out of range.\<close>

definition index :: "'a list \<Rightarrow> nat \<Rightarrow> 'a result" where
  "index xs i = (if i < length xs then Inr (xs ! i) else Inl IndexError)"

subsection \<open>The string methods the parser calls\<close>

text \<open>
  \<^verbatim>\<open>str.isspace\<close> on the code points below 256: tab, line feed, vertical tab, form feed,
  carriage return, the four separators 0x1C to 0x1F, space, 0x85 and 0xA0.
\<close>

definition isspace :: "char \<Rightarrow> bool" where
  "isspace c = (of_char c \<in> {9, 10, 11, 12, 13, 28, 29, 30, 31, 32, 133, 160 :: nat})"

definition strip :: "string \<Rightarrow> string" where
  "strip s = rev (dropWhile isspace (rev (dropWhile isspace s)))"

text \<open>
  \<^verbatim>\<open>s.split(sep)\<close> for a one-character separator; the first argument collects the
  current piece, reversed. The result is never empty: \<^verbatim>\<open>''.split(',') == ['']\<close>.
\<close>

fun split_chr :: "string \<Rightarrow> char \<Rightarrow> string \<Rightarrow> string list" where
  "split_chr cur sep [] = [rev cur]"
| "split_chr cur sep (c # cs) =
     (if c = sep then rev cur # split_chr [] sep cs else split_chr (c # cur) sep cs)"

definition split_comma :: "string \<Rightarrow> string list" where
  "split_comma s = split_chr [] CHR '','' s"

definition split_lines :: "string \<Rightarrow> string list" where
  "split_lines s = split_chr [] (CHR 0x0A) s"

text \<open>
  \<^verbatim>\<open>content.split('\n\n')\<close>: the separator is two line feeds, matched from the left
  without overlap, so three line feeds in a row leave one at the head of the next piece.
\<close>

fun split_blank :: "string \<Rightarrow> string \<Rightarrow> string list" where
  "split_blank cur [] = [rev cur]"
| "split_blank cur [c] = [rev (c # cur)]"
| "split_blank cur (c # d # cs) =
     (if c = CHR 0x0A \<and> d = CHR 0x0A then rev cur # split_blank [] cs
      else split_blank (c # cur) (d # cs))"

definition split_sections :: "string \<Rightarrow> string list" where
  "split_sections s = split_blank [] s"

subsection \<open>The built-in \<^verbatim>\<open>int\<close> on text\<close>

text \<open>
  \<^verbatim>\<open>int(s)\<close> and \<^verbatim>\<open>int(s, 16)\<close>: surrounding whitespace is dropped, one sign is
  allowed, base 16 allows a \<^verbatim>\<open>0x\<close> prefix, and the digits may be grouped by single
  underscores. Anything else raises \<^verbatim>\<open>ValueError\<close>. Python integers are unbounded,
  so the value is an \<^typ>\<open>int\<close>.
\<close>

definition digit_of :: "nat \<Rightarrow> char \<Rightarrow> nat option" where
  "digit_of b c =
     (let n = (of_char c :: nat);
          v = (if 48 \<le> n \<and> n \<le> 57 then Some (n - 48)
               else if 97 \<le> n \<and> n \<le> 122 then Some (n - 87)
               else if 65 \<le> n \<and> n \<le> 90 then Some (n - 55)
               else None)
      in case v of None \<Rightarrow> None | Some d \<Rightarrow> if d < b then Some d else None)"

text \<open>The digits after the first one: an underscore must be followed by a digit.\<close>

fun more_digits :: "nat \<Rightarrow> nat \<Rightarrow> string \<Rightarrow> nat option" where
  "more_digits b acc [] = Some acc"
| "more_digits b acc (c # cs) =
     (if c = CHR ''_'' then
        (case cs of
           [] \<Rightarrow> None
         | d # ds \<Rightarrow>
             (case digit_of b d of
                None \<Rightarrow> None
              | Some v \<Rightarrow> more_digits b (acc * b + v) ds))
      else
        (case digit_of b c of
           None \<Rightarrow> None
         | Some v \<Rightarrow> more_digits b (acc * b + v) cs))"

definition digits :: "nat \<Rightarrow> string \<Rightarrow> nat option" where
  "digits b s =
     (case s of
        [] \<Rightarrow> None
      | c # cs \<Rightarrow> (case digit_of b c of None \<Rightarrow> None | Some v \<Rightarrow> more_digits b v cs))"

definition signed :: "(string \<Rightarrow> nat option) \<Rightarrow> string \<Rightarrow> int option" where
  "signed p s =
     (case s of
        [] \<Rightarrow> None
      | c # cs \<Rightarrow>
          if c = CHR ''-'' then map_option (\<lambda>n. - int n) (p cs)
          else if c = CHR ''+'' then map_option int (p cs)
          else map_option int (p s))"

definition hex_body :: "string \<Rightarrow> nat option" where
  "hex_body s =
     (case s of
        c # x # rest \<Rightarrow>
          if c = CHR ''0'' \<and> (x = CHR ''x'' \<or> x = CHR ''X'') then
            (case rest of
               u # more \<Rightarrow> if u = CHR ''_'' then digits 16 more else digits 16 rest
             | [] \<Rightarrow> None)
          else digits 16 s
      | _ \<Rightarrow> digits 16 s)"

definition py_int :: "string \<Rightarrow> int result" where
  "py_int s = (case signed (digits 10) (strip s) of None \<Rightarrow> Inl (ValueError s) | Some n \<Rightarrow> Inr n)"

definition py_int16 :: "string \<Rightarrow> int result" where
  "py_int16 s = (case signed hex_body (strip s) of None \<Rightarrow> Inl (ValueError s) | Some n \<Rightarrow> Inr n)"

section \<open>The log parser\<close>

text \<open>
  \<^verbatim>\<open>data = {'meta': {}, 'threads': [], 'pc_samples': {}}\<close>: the metadata dictionary, the
  thread rows in file order, and the samples of each thread, keyed by the thread's number.
\<close>

record RunLog =
  meta :: row
  threads :: "row list"
  pc_samples :: "(int \<times> row list) list"

text \<open>
  \<^verbatim>\<open>for k, v in zip(header, vals): d[k.strip()] = v.strip()\<close>, starting from the
  dictionary \<open>d\<close>. \<^verbatim>\<open>zip\<close> stops at the shorter list.
\<close>

definition pair_up :: "string list \<Rightarrow> string list \<Rightarrow> row \<Rightarrow> row" where
  "pair_up header vals d = foldl (\<lambda>d (k, v). AList.update (strip k) (strip v) d) d (zip header vals)"

text \<open>Lines 18 to 22: the first section gives \<^verbatim>\<open>meta\<close>; \<^verbatim>\<open>lines[1]\<close> can raise.\<close>

definition parse_meta :: "string \<Rightarrow> row result" where
  "parse_meta sec =
     (let lines = split_lines (strip sec) in
      bind (index lines 0) (\<lambda>l0.
      let keys = split_comma l0 in
      bind (index lines 1) (\<lambda>l1.
      let vals = split_comma l1 in
      Inr (pair_up keys vals []))))"

text \<open>Lines 24 to 31: the second section gives one dictionary for each line after the header.\<close>

definition parse_threads :: "string \<Rightarrow> row list result" where
  "parse_threads sec =
     (let lines = split_lines (strip sec) in
      bind (index lines 0) (\<lambda>l0.
      let header = split_comma l0 in
      Inr (map (\<lambda>line. pair_up header (split_comma line) []) (tl lines))))"

text \<open>
  Lines 41 to 44, for one sample: \<^verbatim>\<open>tid = int(sample['thread_id'])\<close>, then the list of
  that thread is created if it is missing and the sample is appended to it.
  \<open>int_field d name\<close> is \<^verbatim>\<open>int(d[name])\<close>.
\<close>

definition int_field :: "row \<Rightarrow> string \<Rightarrow> int result" where
  "int_field d name = bind (getitem d name name) py_int"

definition add_sample :: "(int \<times> row list) list \<Rightarrow> row \<Rightarrow> (int \<times> row list) list result" where
  "add_sample pcs sample =
     bind (int_field sample ''thread_id'') (\<lambda>tid.
     let pcs' = (if map_of pcs tid = None then AList.update tid [] pcs else pcs) in
     Inr (AList.update tid (the (map_of pcs' tid) @ [sample]) pcs'))"

fun add_samples :: "(int \<times> row list) list \<Rightarrow> row list \<Rightarrow> (int \<times> row list) list result" where
  "add_samples pcs [] = Inr pcs"
| "add_samples pcs (r # rs) = bind (add_sample pcs r) (\<lambda>pcs'. add_samples pcs' rs)"

text \<open>Lines 33 to 44: the third section, when there is one.\<close>

definition parse_samples :: "string \<Rightarrow> (int \<times> row list) list result" where
  "parse_samples sec =
     (let lines = split_lines (strip sec) in
      bind (index lines 0) (\<lambda>l0.
      let header = split_comma l0 in
      add_samples [] (map (\<lambda>line. pair_up header (split_comma line) []) (tl lines))))"

text \<open>
  \<^verbatim>\<open>parse_csv\<close> on the text of the file. \<^verbatim>\<open>sections[0]\<close> always exists;
  \<^verbatim>\<open>sections[1]\<close> raises \<^verbatim>\<open>IndexError\<close> when the text has no blank line.
\<close>

definition parse_text :: "string \<Rightarrow> RunLog result" where
  "parse_text content =
     (let sections = split_sections (strip content) in
      bind (index sections 0) (\<lambda>s0.
      bind (parse_meta s0) (\<lambda>m.
      bind (index sections 1) (\<lambda>s1.
      bind (parse_threads s1) (\<lambda>ts.
      bind (if length sections > 2 then parse_samples (sections ! 2) else Inr []) (\<lambda>pcs.
      Inr \<lparr>meta = m, threads = ts, pc_samples = pcs\<rparr>))))))"

section \<open>The chart renderer\<close>

text \<open>
  \<^verbatim>\<open>generate_gantt\<close> computes numbers from the two logs and hands them to the plotting
  library. The model keeps every computation and every access that can raise, in the
  order of the source, and records what is handed to the library in a \<open>chart\<close>; the
  library's drawing calls themselves are taken to succeed. A Python \<^verbatim>\<open>float\<close> is
  modelled by a \<^typ>\<open>real\<close>: rounding, infinities and NaN are outside the model. The
  built-in \<^verbatim>\<open>float\<close> on text is a parameter \<open>fl\<close> of the model, so that nothing is
  assumed about which texts it accepts.
\<close>

type_synonym float_reader = "string \<Rightarrow> real result"

text \<open>\<^verbatim>\<open>float(d[name])\<close>.\<close>

definition float_field :: "float_reader \<Rightarrow> row \<Rightarrow> string \<Rightarrow> real result" where
  "float_field fl d name = bind (getitem d name name) fl"

subsection \<open>Derived values, lines 63 to 69\<close>

text \<open>Line 68: \<^verbatim>\<open>speedup = wall_seq / wall_par if wall_par > 0 else 0\<close>.\<close>

definition speedup_of :: "real \<Rightarrow> real \<Rightarrow> real" where
  "speedup_of wall_seq wall_par = (if wall_par > 0 then wall_seq / wall_par else 0)"

text \<open>
  Line 69: \<^verbatim>\<open>efficiency = speedup / nt * 100\<close>. There is no test of \<^verbatim>\<open>nt\<close>;
  Python's division raises \<^verbatim>\<open>ZeroDivisionError\<close> when it is zero.
\<close>

definition true_div :: "real \<Rightarrow> real \<Rightarrow> real result" where
  "true_div a b = (if b = 0 then Inl ZeroDivisionError else Inr (a / b))"

definition efficiency_of :: "real \<Rightarrow> int \<Rightarrow> real result" where
  "efficiency_of sp nt = bind (true_div sp (real_of_int nt)) (\<lambda>q. Inr (q * 100))"

record metrics =
  nt :: int
  wall_seq :: real
  wall_par :: real
  cpu_seq :: real
  cpu_par :: real
  speedup :: real
  efficiency :: real

definition derive :: "float_reader \<Rightarrow> RunLog \<Rightarrow> RunLog \<Rightarrow> metrics result" where
  "derive fl seq par =
     bind (int_field (meta par) ''num_threads'') (\<lambda>n.
     bind (float_field fl (meta seq) ''wall_ms'') (\<lambda>ws.
     bind (float_field fl (meta par) ''wall_ms'') (\<lambda>wp.
     bind (float_field fl (meta seq) ''total_cpu_ms'') (\<lambda>cs.
     bind (float_field fl (meta par) ''total_cpu_ms'') (\<lambda>cp.
     let sp = speedup_of ws wp in
     bind (efficiency_of sp n) (\<lambda>eff.
     Inr \<lparr>nt = n, wall_seq = ws, wall_par = wp, cpu_seq = cs, cpu_par = cp,
          speedup = sp, efficiency = eff\<rparr>))))))"

subsection \<open>Row 1, lines 105 to 177\<close>

text \<open>
  Lines 113 to 118: the label reads \<^verbatim>\<open>seq["meta"]["pid"]\<close>, then the annotation
  reads \<^verbatim>\<open>seq['threads'][0]\<close> twice, under no condition.
\<close>

definition first_thread :: "RunLog \<Rightarrow> row result" where
  "first_thread lg = index (threads lg) 0"

definition panel_1a :: "float_reader \<Rightarrow> RunLog \<Rightarrow> (string \<times> real \<times> real) result" where
  "panel_1a fl seq =
     bind (getitem (meta seq) ''pid'' ''pid'') (\<lambda>pid.
     bind (first_thread seq) (\<lambda>t0.
     bind (float_field fl t0 ''cpu_user_ms'') (\<lambda>cpu_u.
     bind (first_thread seq) (\<lambda>t0'.
     bind (float_field fl t0' ''cpu_sys_ms'') (\<lambda>cpu_s.
     Inr (pid, cpu_u, cpu_s))))))"

text \<open>
  Lines 141 to 158, for one thread of the parallel log: the row \<^verbatim>\<open>nt - tid\<close>, the
  start, the duration, the user CPU time and the colour \<^verbatim>\<open>tid % len(TC)\<close>.
\<close>

record gantt_bar =
  bar_row :: int
  bar_start :: real
  bar_duration :: real
  bar_cpu :: real
  bar_colour :: int

definition panel_1b_thread :: "float_reader \<Rightarrow> int \<Rightarrow> row \<Rightarrow> gantt_bar result" where
  "panel_1b_thread fl n t =
     bind (int_field t ''thread_id'') (\<lambda>tid.
     bind (float_field fl t ''start_ms'') (\<lambda>start.
     bind (float_field fl t ''end_ms'') (\<lambda>stop.
     bind (float_field fl t ''cpu_user_ms'') (\<lambda>cpu_u.
     Inr \<lparr>bar_row = n - tid, bar_start = start, bar_duration = stop - start,
          bar_cpu = cpu_u, bar_colour = tid mod 16\<rparr>))))"

subsection \<open>Row 2, lines 198 to 290\<close>

text \<open>\<^verbatim>\<open>[float(s['timestamp_ms']) for s in samples]\<close>.\<close>

definition timestamps :: "float_reader \<Rightarrow> row list \<Rightarrow> real list result" where
  "timestamps fl samples = mapM (\<lambda>s. float_field fl s ''timestamp_ms'') samples"

text \<open>
  Lines 204 to 214: when thread 0 of the sequential log has samples, a mark at every
  sample whose position is a multiple of \<^verbatim>\<open>len(times) // 20 + 1\<close>.
\<close>

definition sample_marks :: "real list \<Rightarrow> real list" where
  "sample_marks tms =
     map (\<lambda>i. tms ! i) (filter (\<lambda>i. i mod (length tms div 20 + 1) = 0) [0..<length tms])"

definition panel_2a :: "float_reader \<Rightarrow> RunLog \<Rightarrow> real list option result" where
  "panel_2a fl seq =
     (case map_of (pc_samples seq) 0 of
        None \<Rightarrow> Inr None
      | Some samples \<Rightarrow> bind (timestamps fl samples) (\<lambda>tms. Inr (Some (sample_marks tms))))"

text \<open>Line 236: \<^verbatim>\<open>range(1, min(nt, 4))\<close>.\<close>

definition idle_cores :: "int \<Rightarrow> int list" where
  "idle_cores n = [1..min n 4 - 1]"

text \<open>
  Lines 264 to 272: the positions \<^verbatim>\<open>j\<close> of \<^verbatim>\<open>range(1, len(times))\<close> at which the
  arrow and the label "CS" are drawn. Inside the loop the list has at least two elements,
  so \<^verbatim>\<open>times[-1]\<close>, \<^verbatim>\<open>times[0]\<close> and the division by \<^verbatim>\<open>len(times)\<close> cannot raise.
\<close>

definition cs_at :: "real list \<Rightarrow> nat \<Rightarrow> bool" where
  "cs_at tms j =
     (let gap = tms ! j - tms ! (j - 1);
          avg = (if length tms > 1 then (last tms - hd tms) / real (length tms)
                 else gap)
      in gap > avg * 4 \<and> avg > 0)"

definition cs_positions :: "real list \<Rightarrow> nat list" where
  "cs_positions tms = filter (cs_at tms) [1..<length tms]"

text \<open>\<^verbatim>\<open>tid % nt\<close> on Python integers: the sign of the result follows the divisor.\<close>

definition py_mod :: "int \<Rightarrow> int \<Rightarrow> int result" where
  "py_mod a b = (if b = 0 then Inl ZeroDivisionError else Inr (a mod b))"

text \<open>
  Lines 246 to 272, for one thread of the parallel log: the bar on the core
  \<^verbatim>\<open>tid % nt\<close> and, when the thread has samples, its context-switch marks, each with
  the core and the two timestamps it joins.
\<close>

record core_bar =
  core :: int
  core_start :: real
  core_end :: real
  cs_marks :: "(nat \<times> real \<times> real) list"

definition panel_2b_thread :: "float_reader \<Rightarrow> int \<Rightarrow> RunLog \<Rightarrow> row \<Rightarrow> core_bar result" where
  "panel_2b_thread fl n par t =
     bind (int_field t ''thread_id'') (\<lambda>tid.
     bind (float_field fl t ''start_ms'') (\<lambda>start.
     bind (float_field fl t ''end_ms'') (\<lambda>stop.
     bind (py_mod tid n) (\<lambda>c.
     bind (case map_of (pc_samples par) tid of
             None \<Rightarrow> Inr []
           | Some samples \<Rightarrow>
               bind (timestamps fl samples) (\<lambda>tms.
               Inr (map (\<lambda>j. (j, tms ! (j - 1), tms ! j)) (cs_positions tms))))
       (\<lambda>marks.
     Inr \<lparr>core = c, core_start = start, core_end = stop, cs_marks = marks\<rparr>)))))"

subsection \<open>Row 3, lines 296 to 399\<close>

text \<open>\<^verbatim>\<open>[int(s['pc_addr'], 16) for s in samples]\<close>.\<close>

definition pc_addrs :: "row list \<Rightarrow> int list result" where
  "pc_addrs samples = mapM (\<lambda>s. bind (getitem s ''pc_addr'' ''pc_addr'') py_int16) samples"

text \<open>\<^verbatim>\<open>min\<close> and \<^verbatim>\<open>max\<close> of a list raise \<^verbatim>\<open>ValueError\<close> on the empty list.\<close>

definition py_min :: "int list \<Rightarrow> int result" where
  "py_min xs = (case xs of [] \<Rightarrow> Inl (ValueError ''min'') | x # rest \<Rightarrow> Inr (fold min rest x))"

definition py_max :: "int list \<Rightarrow> int result" where
  "py_max xs = (case xs of [] \<Rightarrow> Inl (ValueError ''max'') | x # rest \<Rightarrow> Inr (fold max rest x))"

text \<open>
  Lines 303 to 335: drawn only when thread 0 of the sequential log has samples. The
  points are the timestamps against the addresses less their minimum; the box shows
  \<^verbatim>\<open>seq["threads"][0]["tid"]\<close>, the lowest and highest address, and
  \<^verbatim>\<open>seq["threads"][0]["stack_addr"]\<close>. Once \<^verbatim>\<open>min(pcs_raw)\<close> has returned, the
  lists are not empty and the reads of their first and last elements cannot raise.
\<close>

record pci_box =
  pci_times :: "real list"
  pci_offsets :: "int list"
  pci_base :: int
  pci_top :: int
  pci_tid :: string
  pci_stack :: string

definition panel_3a :: "float_reader \<Rightarrow> RunLog \<Rightarrow> pci_box option result" where
  "panel_3a fl seq =
     (case map_of (pc_samples seq) 0 of
        None \<Rightarrow> Inr None
      | Some samples \<Rightarrow>
          bind (timestamps fl samples) (\<lambda>tms.
          bind (pc_addrs samples) (\<lambda>pcs_raw.
          bind (py_min pcs_raw) (\<lambda>pc_base.
          let pcs_offset = map (\<lambda>p. p - pc_base) pcs_raw in
          bind (py_max pcs_offset) (\<lambda>top_offset.
          bind (first_thread seq) (\<lambda>t0.
          bind (getitem t0 ''tid'' ''tid'') (\<lambda>tid.
          bind (py_max pcs_raw) (\<lambda>top.
          bind (first_thread seq) (\<lambda>t0'.
          bind (getitem t0' ''stack_addr'' ''stack_addr'') (\<lambda>stack.
          Inr (Some \<lparr>pci_times = tms, pci_offsets = pcs_offset, pci_base = pc_base,
                     pci_top = top, pci_tid = tid, pci_stack = stack\<rparr>)))))))))))"

text \<open>
  Lines 353 to 361: the lowest address over all threads of the parallel log, 0 when there
  is none. The loop runs over the keys of \<^verbatim>\<open>par['pc_samples']\<close> in insertion order.
\<close>

fun base_loop :: "(int \<times> row list) list \<Rightarrow> int option \<Rightarrow> int list \<Rightarrow> int option result" where
  "base_loop pcs b [] = Inr b"
| "base_loop pcs b (tid_k # ks) =
     bind (getitem pcs tid_k ''pc_samples'') (\<lambda>samples.
     bind (pc_addrs samples) (\<lambda>addrs.
     if addrs \<noteq> [] then
       bind (py_min addrs) (\<lambda>mn.
       base_loop pcs (if b = None \<or> mn < the b then Some mn else b) ks)
     else base_loop pcs b ks))"

definition all_pc_base :: "RunLog \<Rightarrow> int result" where
  "all_pc_base par =
     bind (base_loop (pc_samples par) None (map fst (pc_samples par))) (\<lambda>b.
     Inr (case b of None \<Rightarrow> 0 | Some v \<Rightarrow> v))"

text \<open>
  Lines 363 to 378, for one thread of the parallel log: nothing is drawn for a thread
  without samples. The label reads \<^verbatim>\<open>t["tid"]\<close>; the markers read the first and the
  last point, which raises \<^verbatim>\<open>IndexError\<close> on an empty sample list.
\<close>

record pci_line =
  line_thread :: int
  line_tid :: string
  line_points :: "(real \<times> int) list"

definition panel_3b_thread :: "float_reader \<Rightarrow> int \<Rightarrow> RunLog \<Rightarrow> row \<Rightarrow> pci_line option result" where
  "panel_3b_thread fl base par t =
     bind (int_field t ''thread_id'') (\<lambda>tid.
     case map_of (pc_samples par) tid of
       None \<Rightarrow> Inr None
     | Some samples \<Rightarrow>
         bind (timestamps fl samples) (\<lambda>tms.
         bind (pc_addrs samples) (\<lambda>pcs_raw.
         let pcs_offset = map (\<lambda>p. p - base) pcs_raw in
         bind (getitem t ''tid'' ''tid'') (\<lambda>os_tid.
         bind (index tms 0) (\<lambda>t_first.
         bind (index pcs_offset 0) (\<lambda>p_first.
         Inr (Some \<lparr>line_thread = tid, line_tid = os_tid,
                    line_points = zip tms pcs_offset\<rparr>)))))))"

subsection \<open>Row 4, lines 405 to 488\<close>

text \<open>\<^verbatim>\<open>p / total_px * 100 if total_px > 0 else 0\<close>.\<close>

definition percent :: "int \<Rightarrow> int \<Rightarrow> real" where
  "percent total_px p = (if total_px > 0 then real_of_int p / real_of_int total_px * 100 else 0)"

definition pixel_counts :: "row list \<Rightarrow> int list result" where
  "pixel_counts samples = mapM (\<lambda>s. int_field s ''pixels_at'') samples"

text \<open>Lines 411 to 423: the progress curve of the sequential run, drawn only with samples.\<close>

definition panel_4a :: "float_reader \<Rightarrow> RunLog \<Rightarrow> (real \<times> real) list option result" where
  "panel_4a fl seq =
     (case map_of (pc_samples seq) 0 of
        None \<Rightarrow> Inr None
      | Some samples \<Rightarrow>
          bind (timestamps fl samples) (\<lambda>tms.
          bind (first_thread seq) (\<lambda>t0.
          bind (int_field t0 ''pixels'') (\<lambda>total_px.
          bind (pixel_counts samples) (\<lambda>pixels.
          Inr (Some (zip tms (map (percent total_px) pixels))))))))"

text \<open>
  Line 437: \<^verbatim>\<open>total_bytes = int(seq['threads'][0]['pixels']) * 3\<close>, outside the test
  for samples.
\<close>

definition total_bytes_of :: "RunLog \<Rightarrow> int result" where
  "total_bytes_of seq =
     bind (first_thread seq) (\<lambda>t0.
     bind (int_field t0 ''pixels'') (\<lambda>px.
     Inr (px * 3)))"

text \<open>
  Lines 438 and 481:
  \<^verbatim>\<open>(total_bytes / 1024 / 1024) / (wall / 1000) if wall > 0 else 0\<close>.
\<close>

definition throughput_of :: "int \<Rightarrow> real \<Rightarrow> real" where
  "throughput_of total_bytes wall =
     (if wall > 0 then (real_of_int total_bytes / 1024 / 1024) / (wall / 1000) else 0)"

text \<open>
  Lines 453 to 464, for one thread of the parallel log: \<^verbatim>\<open>int(t['pixels'])\<close> is read
  for every thread, the curve is drawn for a thread with samples.
\<close>

definition panel_4b_thread ::
  "float_reader \<Rightarrow> RunLog \<Rightarrow> row \<Rightarrow> (int \<times> (real \<times> real) list) option result" where
  "panel_4b_thread fl par t =
     bind (int_field t ''thread_id'') (\<lambda>tid.
     bind (int_field t ''pixels'') (\<lambda>total_px.
     case map_of (pc_samples par) tid of
       None \<Rightarrow> Inr None
     | Some samples \<Rightarrow>
         bind (timestamps fl samples) (\<lambda>tms.
         bind (pixel_counts samples) (\<lambda>pixels.
         Inr (Some (tid, zip tms (map (percent total_px) pixels)))))))"

subsection \<open>The whole figure\<close>

record chart =
  numbers :: metrics
  row1_seq :: "string \<times> real \<times> real"
  row1_par :: "gantt_bar list"
  row2_seq :: "real list option"
  row2_idle :: "int list"
  row2_par :: "core_bar list"
  row3_seq :: "pci_box option"
  row3_par :: "pci_line option list"
  row4_seq :: "(real \<times> real) list option"
  total_bytes :: int
  throughput_seq :: real
  row4_par :: "(int \<times> (real \<times> real) list) option list"
  throughput_par :: real

text \<open>Lines 63 to 549 on two parsed logs, in the order of the source.\<close>

definition render :: "float_reader \<Rightarrow> RunLog \<Rightarrow> RunLog \<Rightarrow> chart result" where
  "render fl seq par =
     bind (derive fl seq par) (\<lambda>m.
     bind (panel_1a fl seq) (\<lambda>r1a.
     bind (mapM (panel_1b_thread fl (nt m)) (threads par)) (\<lambda>r1b.
     bind (panel_2a fl seq) (\<lambda>r2a.
     bind (mapM (panel_2b_thread fl (nt m) par) (threads par)) (\<lambda>r2b.
     bind (panel_3a fl seq) (\<lambda>r3a.
     bind (all_pc_base par) (\<lambda>base.
     bind (mapM (panel_3b_thread fl base par) (threads par)) (\<lambda>r3b.
     bind (panel_4a fl seq) (\<lambda>r4a.
     bind (total_bytes_of seq) (\<lambda>tb.
     bind (mapM (panel_4b_thread fl par) (threads par)) (\<lambda>r4b.
     Inr \<lparr>numbers = m, row1_seq = r1a, row1_par = r1b, row2_seq = r2a,
          row2_idle = idle_cores (nt m), row2_par = r2b, row3_seq = r3a, row3_par = r3b,
          row4_seq = r4a, total_bytes = tb, throughput_seq = throughput_of tb (wall_seq m),
          row4_par = r4b, throughput_par = throughput_of tb (wall_par m)\<rparr>)))))))))))"

section \<open>Files, output and the entry point\<close>

text \<open>
  What the script touches outside itself: the readable files (a path has a text or
  cannot be opened), whether the plotting library can be imported, the paths opened so
  far, the lines printed and the figures saved.
\<close>

record world =
  files :: "string \<Rightarrow> string option"
  matplotlib :: bool
  opened :: "string list"
  stdout :: "string list"
  saved :: "(string \<times> chart) list"

text \<open>
  How a run ends: the script returns, calls \<^verbatim>\<open>sys.exit\<close>, or an exception reaches
  the top. The interpreter's exit status is 1 for an uncaught exception.
\<close>

datatype outcome = Returned | SysExit int | Uncaught error

fun status :: "outcome \<Rightarrow> int" where
  "status Returned = 0"
| "status (SysExit n) = n"
| "status (Uncaught e) = 1"

text \<open>\<^verbatim>\<open>parse_csv(filepath)\<close>: lines 14 and 15 open and read the file, the rest is on its text.\<close>

definition parse_csv :: "string \<Rightarrow> world \<Rightarrow> RunLog result \<times> world" where
  "parse_csv filepath w =
     (case files w filepath of
        None \<Rightarrow> Inl (FileNotFoundError filepath)
      | Some content \<Rightarrow> parse_text content,
      w\<lparr>opened := opened w @ [filepath]\<rparr>)"

text \<open>
  \<^verbatim>\<open>generate_gantt\<close>: the import of the library (lines 49 to 58), the two parses
  (lines 60 and 61), the figure, \<^verbatim>\<open>savefig\<close> (line 552) and the last message.
\<close>

definition generate_gantt ::
  "float_reader \<Rightarrow> string \<Rightarrow> string \<Rightarrow> string \<Rightarrow> world \<Rightarrow> outcome \<times> world" where
  "generate_gantt fl seq_csv par_csv output_path w =
     (if \<not> matplotlib w then
        (SysExit 1, w\<lparr>stdout := stdout w @ [''Error: pip3 install matplotlib'']\<rparr>)
      else
        case parse_csv seq_csv w of
          (Inl e, w1) \<Rightarrow> (Uncaught e, w1)
        | (Inr seq, w1) \<Rightarrow>
            (case parse_csv par_csv w1 of
               (Inl e, w2) \<Rightarrow> (Uncaught e, w2)
             | (Inr par, w2) \<Rightarrow>
                 (case render fl seq par of
                    Inl e \<Rightarrow> (Uncaught e, w2)
                  | Inr ch \<Rightarrow>
                      (Returned,
                       w2\<lparr>saved := saved w2 @ [(output_path, ch)],
                          stdout := stdout w2 @
                            [CHR 0x0A # ''  Diagrama de Gantt generado: '' @ output_path]\<rparr>))))"

text \<open>Lines 558 to 562, on \<^verbatim>\<open>sys.argv\<close>.\<close>

definition usage :: "string \<Rightarrow> string" where
  "usage prog = ''Uso: '' @ prog @ '' <csv_secuencial> <csv_paralelo> <output.png>''"

definition main :: "float_reader \<Rightarrow> string list \<Rightarrow> world \<Rightarrow> outcome \<times> world" where
  "main fl argv w =
     (if length argv < 4 then
        (case index argv 0 of
           Inl e \<Rightarrow> (Uncaught e, w)
         | Inr prog \<Rightarrow> (SysExit 1, w\<lparr>stdout := stdout w @ [usage prog]\<rparr>))
      else generate_gantt fl (argv ! 1) (argv ! 2) (argv ! 3) w)"

section \<open>Example logs\<close>

text \<open>
  A reader of plain decimal literals (a sign, digits, and at most one point with digits
  on both sides), with their exact value. It stands for \<^verbatim>\<open>float\<close> where the model is
  run on an example; the theorems below hold for every reader.
\<close>

definition plain_digits :: "string \<Rightarrow> nat option" where
  "plain_digits s =
     (if s \<noteq> [] \<and> list_all (\<lambda>c. digit_of 10 c \<noteq> None) s
      then Some (foldl (\<lambda>n c. 10 * n + the (digit_of 10 c)) 0 s) else None)"

definition decimal :: float_reader where
  "decimal s =
     (let t = strip s;
          neg = (t \<noteq> [] \<and> hd t = CHR ''-'');
          body = (if t \<noteq> [] \<and> (hd t = CHR ''-'' \<or> hd t = CHR ''+'') then tl t else t);
          sg = (if neg then - 1 else 1 :: real)
      in case split_chr [] CHR ''.'' body of
           [i] \<Rightarrow>
             (case plain_digits i of
                Some n \<Rightarrow> Inr (sg * real n)
              | None \<Rightarrow> Inl (ValueError s))
         | [i, f] \<Rightarrow>
             (case (plain_digits i, plain_digits f) of
                (Some n, Some m) \<Rightarrow> Inr (sg * (real n + real m / 10 ^ length f))
              | _ \<Rightarrow> Inl (ValueError s))
         | _ \<Rightarrow> Inl (ValueError s))"

text \<open>A sequential run of one thread, without a sample trace.\<close>

definition seq_log :: RunLog where
  "seq_log =
     \<lparr>meta = [(''pid'', ''123''), (''wall_ms'', ''100.0''), (''total_cpu_ms'', ''98.5'')],
      threads =
        [[(''thread_id'', ''0''), (''tid'', ''1001''), (''cpu_user_ms'', ''97.0''),
          (''cpu_sys_ms'', ''1.5''), (''pixels'', ''1048576''),
          (''stack_addr'', ''0x7ffd1000'')]],
      pc_samples = []\<rparr>"

text \<open>
  A parallel run of two threads. Thread 0 has five samples, the last one after a long
  pause; thread 1 has two.
\<close>

definition par_log :: RunLog where
  "par_log =
     \<lparr>meta = [(''pid'', ''124''), (''num_threads'', ''2''), (''wall_ms'', ''25.0''),
              (''total_cpu_ms'', ''44.0'')],
      threads =
        [[(''thread_id'', ''0''), (''tid'', ''2001''), (''start_ms'', ''0.0''),
          (''end_ms'', ''24.0''), (''cpu_user_ms'', ''22.0''), (''pixels'', ''524288'')],
         [(''thread_id'', ''1''), (''tid'', ''2002''), (''start_ms'', ''0.5''),
          (''end_ms'', ''25.0''), (''cpu_user_ms'', ''22.0''), (''pixels'', ''524288'')]],
      pc_samples =
        [(0, [[(''thread_id'', ''0''), (''timestamp_ms'', ''0.0''), (''pc_addr'', ''0x401000''),
               (''pixels_at'', ''0'')],
              [(''thread_id'', ''0''), (''timestamp_ms'', ''0.5''), (''pc_addr'', ''0x401010''),
               (''pixels_at'', ''1000'')],
              [(''thread_id'', ''0''), (''timestamp_ms'', ''1.0''), (''pc_addr'', ''0x401020''),
               (''pixels_at'', ''2000'')],
              [(''thread_id'', ''0''), (''timestamp_ms'', ''1.5''), (''pc_addr'', ''0x401010''),
               (''pixels_at'', ''3000'')],
              [(''thread_id'', ''0''), (''timestamp_ms'', ''20.0''), (''pc_addr'', ''0x401030''),
               (''pixels_at'', ''4000'')]]),
         (1, [[(''thread_id'', ''1''), (''timestamp_ms'', ''0.5''), (''pc_addr'', ''0x401008''),
               (''pixels_at'', ''0'')],
              [(''thread_id'', ''1''), (''timestamp_ms'', ''1.0''), (''pc_addr'', ''0x401018''),
               (''pixels_at'', ''900'')]])]\<rparr>"



text \<open>What \<open>render\<close> returns on these two logs.\<close>

definition example_chart :: chart where
  "example_chart =
     \<lparr>numbers = \<lparr>nt = 2, wall_seq = 100, wall_par = 25, cpu_seq = 197 / 2, cpu_par = 44,
                  speedup = 4, efficiency = 200\<rparr>,
      row1_seq = (''123'', 97, 3 / 2),
      row1_par =
        [\<lparr>bar_row = 2, bar_start = 0, bar_duration = 24, bar_cpu = 22, bar_colour = 0\<rparr>,
         \<lparr>bar_row = 1, bar_start = 1 / 2, bar_duration = 49 / 2, bar_cpu = 22,
            bar_colour = 1\<rparr>],
      row2_seq = None,
      row2_idle = [1],
      row2_par =
        [\<lparr>core = 0, core_start = 0, core_end = 24, cs_marks = [(4, 3 / 2, 20)]\<rparr>,
         \<lparr>core = 1, core_start = 1 / 2, core_end = 25, cs_marks = []\<rparr>],
      row3_seq = None,
      row3_par =
        [Some \<lparr>line_thread = 0, line_tid = ''2001'',
               line_points = [(0, 0), (1 / 2, 16), (1, 32), (3 / 2, 16), (20, 48)]\<rparr>,
         Some \<lparr>line_thread = 1, line_tid = ''2002'', line_points = [(1 / 2, 8), (1, 24)]\<rparr>],
      row4_seq = None,
      total_bytes = 3145728,
      throughput_seq = 30,
      row4_par =
        [Some (0, [(0, 0), (1 / 2, 3125 / 16384), (1, 3125 / 8192), (3 / 2, 9375 / 16384),
                   (20, 3125 / 4096)]),
         Some (1, [(1 / 2, 0), (1, 5625 / 32768)])],
      throughput_par = 120\<rparr>"


definition seq_log_no_threads :: RunLog where
  "seq_log_no_threads = seq_log\<lparr>threads := []\<rparr>"

definition seq_log_bad_pixels :: RunLog where
  "seq_log_bad_pixels =
     seq_log\<lparr>threads :=
       [[(''thread_id'', ''0''), (''tid'', ''1001''), (''cpu_user_ms'', ''97.0''),
         (''cpu_sys_ms'', ''1.5''), (''pixels'', ''many'')]]\<rparr>"

text \<open>The text of a sequential log with two sections; it parses to \<open>seq_log\<close>.\<close>

definition seq_text :: string where
  "seq_text =
     ''pid,wall_ms,total_cpu_ms\<newline>'' @
     ''123,100.0,98.5\<newline>'' @
     ''\<newline>'' @
     ''thread_id,tid,cpu_user_ms,cpu_sys_ms,pixels,stack_addr\<newline>'' @
     ''0,1001,97.0,1.5,1048576,0x7ffd1000\<newline>''"

text \<open>The same log with a thread table that has a header and no row.\<close>

definition seq_text_no_rows :: string where
  "seq_text_no_rows =
     ''pid,wall_ms,total_cpu_ms\<newline>'' @
     ''123,100.0,98.5\<newline>'' @
     ''\<newline>'' @
     ''thread_id,tid,cpu_user_ms,cpu_sys_ms,pixels,stack_addr\<newline>''"

text \<open>A machine with the plotting library and these two files, before the script runs.\<close>

definition machine :: world where
  "machine =
     \<lparr>files = map_of [(''seq.csv'', seq_text), (''empty.csv'', seq_text_no_rows)],
      matplotlib = True, opened = [], stdout = [], saved = []\<rparr>"

text \<open>
  The examples of the specification in one log: the metadata of its first testable
  property, the thread table of its second with a short row and a long row added, and a
  sample trace whose rows alternate between two threads.
\<close>

definition spec_text :: string where
  "spec_text =
     ''pid,wall_ms,total_cpu_ms\<newline>'' @
     ''123,45.5,40.2\<newline>'' @
     ''\<newline>'' @
     ''thread_id,tid,start_ms,end_ms\<newline>'' @
     ''0,1001,0.0,10.0\<newline>'' @
     ''1,1002,0.0,12.0\<newline>'' @
     ''2,1003\<newline>'' @
     ''3,1004,0.0,9.0,extra\<newline>'' @
     ''\<newline>'' @
     ''thread_id,timestamp_ms\<newline>'' @
     ''0,1.0\<newline>'' @
     ''1,1.5\<newline>'' @
     ''0,2.0\<newline>'' @
     ''1,2.5\<newline>''"

text \<open>Its three sections.\<close>

definition spec_meta :: string where
  "spec_meta =
     ''pid,wall_ms,total_cpu_ms\<newline>'' @
     ''123,45.5,40.2''"

definition spec_threads :: string where
  "spec_threads =
     ''thread_id,tid,start_ms,end_ms\<newline>'' @
     ''0,1001,0.0,10.0\<newline>'' @
     ''1,1002,0.0,12.0\<newline>'' @
     ''2,1003\<newline>'' @
     ''3,1004,0.0,9.0,extra''"

definition spec_samples :: string where
  "spec_samples =
     ''thread_id,timestamp_ms\<newline>'' @
     ''0,1.0\<newline>'' @
     ''1,1.5\<newline>'' @
     ''0,2.0\<newline>'' @
     ''1,2.5''"

text \<open>What the parser returns on it.\<close>

definition spec_log :: RunLog where
  "spec_log =
     \<lparr>meta = [(''pid'', ''123''), (''wall_ms'', ''45.5''), (''total_cpu_ms'', ''40.2'')],
      threads =
        [[(''thread_id'', ''0''), (''tid'', ''1001''), (''start_ms'', ''0.0''),
          (''end_ms'', ''10.0'')],
         [(''thread_id'', ''1''), (''tid'', ''1002''), (''start_ms'', ''0.0''),
          (''end_ms'', ''12.0'')],
         [(''thread_id'', ''2''), (''tid'', ''1003'')],
         [(''thread_id'', ''3''), (''tid'', ''1004''), (''start_ms'', ''0.0''),
          (''end_ms'', ''9.0'')]],
      pc_samples =
        [(0, [[(''thread_id'', ''0''), (''timestamp_ms'', ''1.0'')],
              [(''thread_id'', ''0''), (''timestamp_ms'', ''2.0'')]]),
         (1, [[(''thread_id'', ''1''), (''timestamp_ms'', ''1.5'')],
              [(''thread_id'', ''1''), (''timestamp_ms'', ''2.5'')]])]\<rparr>"

text \<open>A log whose second sample has a thread identifier that is not a number.\<close>

definition bad_id_text :: string where
  "bad_id_text =
     ''pid,wall_ms,total_cpu_ms\<newline>'' @
     ''123,45.5,40.2\<newline>'' @
     ''\<newline>'' @
     ''thread_id,tid\<newline>'' @
     ''0,1001\<newline>'' @
     ''\<newline>'' @
     ''thread_id,timestamp_ms\<newline>'' @
     ''0,1.0\<newline>'' @
     ''main,1.5\<newline>''"

text \<open>
  The text of a parallel log with two sections; it parses to \<open>par_log\<close> without its
  samples, and the figure then has no mark and no curve for the parallel run.
\<close>

definition par_text :: string where
  "par_text =
     ''pid,num_threads,wall_ms,total_cpu_ms\<newline>'' @
     ''124,2,25.0,44.0\<newline>'' @
     ''\<newline>'' @
     ''thread_id,tid,start_ms,end_ms,cpu_user_ms,pixels\<newline>'' @
     ''0,2001,0.0,24.0,22.0,524288\<newline>'' @
     ''1,2002,0.5,25.0,22.0,524288\<newline>''"

definition par_log_plain :: RunLog where
  "par_log_plain = par_log\<lparr>pc_samples := []\<rparr>"

definition plain_chart :: chart where
  "plain_chart =
     example_chart
       \<lparr>row2_par :=
          [\<lparr>core = 0, core_start = 0, core_end = 24, cs_marks = []\<rparr>,
           \<lparr>core = 1, core_start = 1 / 2, core_end = 25, cs_marks = []\<rparr>],
        row3_par := [None, None],
        row4_par := [None, None]\<rparr>"

section \<open>Properties\<close>

subsection \<open>Sequencing\<close>

lemma bind_Inr: "bind m f = Inr y \<longleftrightarrow> (\<exists>x. m = Inr x \<and> f x = Inr y)"
  by (cases m) (simp_all add: bind_def)

lemma bind_Inl_left: "bind (Inl e) f = Inl e"
  by (simp add: bind_def)

lemma bind_Inr_left: "bind (Inr x) f = f x"
  by (simp add: bind_def)

text \<open>
  Running the model on an example: the simplifier works on the first argument of
  \<open>bind\<close> until it is a value, and only then enters the continuation.
\<close>

lemma bind_weak_cong: "m = m' \<Longrightarrow> bind m f = bind m' f"
  by simp

lemmas run = bind_Inr_left bind_Inl_left getitem_def index_def isspace_def strip_def
  split_comma_def split_lines_def split_sections_def digit_of_def digits_def signed_def
  hex_body_def py_int_def py_int16_def int_field_def float_field_def plain_digits_def
  decimal_def pair_up_def parse_meta_def parse_threads_def add_sample_def parse_samples_def
  parse_text_def pc_addrs_def timestamps_def pixel_counts_def py_min_def py_max_def
  first_thread_def derive_def speedup_of_def efficiency_of_def true_div_def panel_1a_def
  panel_1b_thread_def panel_2a_def sample_marks_def idle_cores_def cs_at_def cs_positions_def
  py_mod_def panel_2b_thread_def panel_3a_def all_pc_base_def panel_3b_thread_def
  percent_def panel_4a_def total_bytes_of_def throughput_of_def panel_4b_thread_def
  render_def

lemma render_example: "render decimal seq_log par_log = Inr example_chart"
  by (simp add: run seq_log_def par_log_def example_chart_def cong: bind_weak_cong)

lemma parse_seq_text: "parse_text seq_text = Inr seq_log"
  by (simp add: run seq_text_def seq_log_def cong: bind_weak_cong)

lemma parse_seq_text_no_rows: "parse_text seq_text_no_rows = Inr seq_log_no_threads"
  by (simp add: run seq_text_no_rows_def seq_log_no_threads_def seq_log_def
      cong: bind_weak_cong)

subsection \<open>Speedup and efficiency\<close>







subsection \<open>What a finished rendering has gone through\<close>

lemma render_Inr:
  "render fl seq par = Inr ch \<longleftrightarrow>
     (\<exists>m r1a r1b r2a r2b r3a base r3b r4a tb r4b.
        derive fl seq par = Inr m \<and>
        panel_1a fl seq = Inr r1a \<and>
        mapM (panel_1b_thread fl (nt m)) (threads par) = Inr r1b \<and>
        panel_2a fl seq = Inr r2a \<and>
        mapM (panel_2b_thread fl (nt m) par) (threads par) = Inr r2b \<and>
        panel_3a fl seq = Inr r3a \<and>
        all_pc_base par = Inr base \<and>
        mapM (panel_3b_thread fl base par) (threads par) = Inr r3b \<and>
        panel_4a fl seq = Inr r4a \<and>
        total_bytes_of seq = Inr tb \<and>
        mapM (panel_4b_thread fl par) (threads par) = Inr r4b \<and>
        ch = \<lparr>numbers = m, row1_seq = r1a, row1_par = r1b, row2_seq = r2a,
              row2_idle = idle_cores (nt m), row2_par = r2b, row3_seq = r3a, row3_par = r3b,
              row4_seq = r4a, total_bytes = tb, throughput_seq = throughput_of tb (wall_seq m),
              row4_par = r4b, throughput_par = throughput_of tb (wall_par m)\<rparr>)"
  unfolding render_def bind_Inr by auto


lemma total_bytes_of_Inr:
  "total_bytes_of seq = Inr tb \<longleftrightarrow>
     (\<exists>t0 px. first_thread seq = Inr t0 \<and> int_field t0 ''pixels'' = Inr px \<and> tb = px * 3)"
  unfolding total_bytes_of_def bind_Inr by auto

lemma panel_1a_Inr:
  "panel_1a fl seq = Inr r \<Longrightarrow>
     \<exists>t0 u s. first_thread seq = Inr t0 \<and> float_field fl t0 ''cpu_user_ms'' = Inr u \<and>
       float_field fl t0 ''cpu_sys_ms'' = Inr s"
  unfolding panel_1a_def bind_Inr by auto

lemma first_thread_Inr:
  "first_thread seq = Inr t0 \<longleftrightarrow> (\<exists>rest. threads seq = t0 # rest)"
  by (cases "threads seq") (auto simp add: first_thread_def index_def)

lemma render_needs_first_thread:
  assumes "render fl seq par = Inr ch"
  shows "\<exists>t0 rest u s px. threads seq = t0 # rest \<and>
           float_field fl t0 ''cpu_user_ms'' = Inr u \<and>
           float_field fl t0 ''cpu_sys_ms'' = Inr s \<and> int_field t0 ''pixels'' = Inr px"
proof -
  from assms obtain r1a tb where a: "panel_1a fl seq = Inr r1a"
    and b: "total_bytes_of seq = Inr tb"
    unfolding render_Inr by auto
  from panel_1a_Inr [OF a] obtain t0 u s where t0: "first_thread seq = Inr t0"
    and u: "float_field fl t0 ''cpu_user_ms'' = Inr u"
    and s: "float_field fl t0 ''cpu_sys_ms'' = Inr s" by auto
  from b obtain t1 px where t1: "first_thread seq = Inr t1"
    and px: "int_field t1 ''pixels'' = Inr px"
    unfolding total_bytes_of_Inr by auto
  from t0 t1 have "t1 = t0" by simp
  with t0 u s px show ?thesis unfolding first_thread_Inr by auto
qed

subsection \<open>Throughput\<close>




subsection \<open>The first thread of the sequential log\<close>

text \<open>
  C10. The renderer reads the first thread row of the sequential log for
  \<^verbatim>\<open>cpu_user_ms\<close>, \<^verbatim>\<open>cpu_sys_ms\<close> and \<^verbatim>\<open>pixels\<close> whether or not the log has
  samples. So when the sequential log has no thread row, or when its first row lacks one
  of the three fields or holds a text there that the conversion rejects, the rendering
  raises; and a run of \<^verbatim>\<open>generate_gantt\<close> on a file that parses to such a log ends
  with status 1 and saves no figure.
\<close>

theorem first_thread_required:
  assumes "threads seq = [] \<or>
     (\<exists>t0 rest. threads seq = t0 # rest \<and>
        (isl (float_field fl t0 ''cpu_user_ms'') \<or> isl (float_field fl t0 ''cpu_sys_ms'') \<or>
         isl (int_field t0 ''pixels'')))"
  shows "isl (render fl seq par) \<and>
     (\<forall>w a b out c. files w a = Some c \<and> parse_text c = Inr seq \<longrightarrow>
        status (fst (generate_gantt fl a b out w)) = 1 \<and>
        saved (snd (generate_gantt fl a b out w)) = saved w)"
proof -
  have fails: "isl (render fl seq par')" for par'
  proof (cases "render fl seq par'")
    case (Inl e)
    then show ?thesis by simp
  next
    case (Inr ch)
    from render_needs_first_thread [OF Inr] assms show ?thesis by auto
  qed
  have ends: "status (fst (generate_gantt fl a b out w)) = 1 \<and>
        saved (snd (generate_gantt fl a b out w)) = saved w"
    if c: "files w a = Some c" and p: "parse_text c = Inr seq" for w a b out c
  proof (cases "matplotlib w")
    case False
    then show ?thesis by (simp add: generate_gantt_def)
  next
    case True
    show ?thesis
    proof (cases "fst (parse_csv b (w\<lparr>opened := opened w @ [a]\<rparr>))")
      case (Inl e)
      with True c p show ?thesis
        by (simp add: generate_gantt_def parse_csv_def split: option.splits sum.splits)
    next
      case (Inr par')
      from fails [of par'] obtain e where "render fl seq par' = Inl e"
        by (cases "render fl seq par'") auto
      with True c p Inr show ?thesis
        by (simp add: generate_gantt_def parse_csv_def split: option.splits sum.splits)
    qed
  qed
  from fails ends show ?thesis by blast
qed

text \<open>
  A log without thread rows, read from a file, and a log whose first thread has the
  pixel count \<^verbatim>\<open>many\<close>.
\<close>

theorem first_thread_required_witness:
  "isl (render decimal seq_log_no_threads par_log)
   \<and> status (fst (generate_gantt decimal ''empty.csv'' ''seq.csv'' ''out.png'' machine)) = 1
   \<and> saved (snd (generate_gantt decimal ''empty.csv'' ''seq.csv'' ''out.png'' machine)) = []
   \<and> isl (render decimal seq_log_bad_pixels par_log)"
proof -
  have none: "threads seq_log_no_threads = [] \<or>
     (\<exists>t0 rest. threads seq_log_no_threads = t0 # rest \<and>
        (isl (float_field decimal t0 ''cpu_user_ms'') \<or>
         isl (float_field decimal t0 ''cpu_sys_ms'') \<or> isl (int_field t0 ''pixels'')))"
    by (simp add: seq_log_no_threads_def)
  have bad: "threads seq_log_bad_pixels = [] \<or>
     (\<exists>t0 rest. threads seq_log_bad_pixels = t0 # rest \<and>
        (isl (float_field decimal t0 ''cpu_user_ms'') \<or>
         isl (float_field decimal t0 ''cpu_sys_ms'') \<or> isl (int_field t0 ''pixels'')))"
    by (simp add: seq_log_bad_pixels_def run)
  have f: "files machine ''empty.csv'' = Some seq_text_no_rows"
    by (simp add: machine_def)
  have s: "saved machine = []"
    by (simp add: machine_def)
  from first_thread_required [OF none, of par_log] f parse_seq_text_no_rows s
    first_thread_required [OF bad, of par_log]
  show ?thesis by auto
qed

subsection \<open>Context-switch marks\<close>






subsection \<open>The entry point\<close>



subsection \<open>The parser\<close>

lemma split_chr_not_empty: "split_chr cur sep s \<noteq> []"
  by (induction s arbitrary: cur) simp_all

lemma split_lines_cases: "\<exists>h ls. split_lines s = h # ls"
  using split_chr_not_empty [of "[]" "CHR 0x0A" s]
  by (cases "split_lines s") (simp_all add: split_lines_def)

lemma index_0 [simp]: "index (x # xs) 0 = Inr x"
  by (simp add: index_def)

lemma index_1 [simp]: "index (x # y # xs) (Suc 0) = Inr y"
  by (simp add: index_def)

lemma update_fresh: "k \<notin> fst ` set d \<Longrightarrow> AList.update k v d = d @ [(k, v)]"
  by (induction d) auto

lemma take_min_length: "take (min (length xs) n) xs = take n xs"
  by (simp add: min_def)

lemma map_of_pair_up:
  "map_of (pair_up header vals d)
     = map_of (rev (zip (map strip header) (map strip vals)) @ d)"
proof -
  have "map_of (foldl (\<lambda>d (k, v). AList.update (strip k) (strip v) d) d kvs)
          = map_of (rev (map (\<lambda>(k, v). (strip k, strip v)) kvs) @ d)" for kvs
  proof (induction kvs arbitrary: d)
    case Nil
    then show ?case by simp
  next
    case (Cons kv kvs)
    then show ?case
      by (cases kv) (simp add: update_conv' map_add_def fun_eq_iff split: option.splits)
  qed
  then show ?thesis
    by (simp add: pair_up_def zip_map_map)
qed

lemma pair_up_distinct:
  assumes "distinct (map strip (take (length vals) header))"
  shows "pair_up header vals [] = zip (map strip header) (map strip vals)"
proof -
  have "distinct (map fst d @ map (\<lambda>kv. strip (fst kv)) kvs) \<Longrightarrow>
          foldl (\<lambda>d (k, v). AList.update (strip k) (strip v) d) d kvs
            = d @ map (\<lambda>(k, v). (strip k, strip v)) kvs" for kvs and d :: row
  proof (induction kvs arbitrary: d)
    case Nil
    then show ?case by simp
  next
    case (Cons kv kvs)
    obtain k v where kv: "kv = (k, v)" by (cases kv)
    from Cons.prems kv have fresh: "strip k \<notin> fst ` set d" by auto
    from Cons.prems kv have "distinct (map fst (d @ [(strip k, strip v)]) @ map (\<lambda>kv. strip (fst kv)) kvs)"
      by auto
    from Cons.IH [OF this] kv fresh show ?case
      by (simp add: update_fresh)
  qed
  note general = this
  have "map (\<lambda>kv. strip (fst kv)) (zip header vals) = map strip (map fst (zip header vals))"
    by simp
  also have "\<dots> = map strip (take (length vals) header)"
    unfolding map_fst_zip_take by (simp add: take_min_length)
  finally have "distinct (map (\<lambda>kv. strip (fst kv)) (zip header vals))"
    using assms by simp
  with general [of "[]" "zip header vals"] show ?thesis
    by (simp add: pair_up_def zip_map_map)
qed

lemma pair_up_keys:
  "fst ` set (pair_up header vals []) = strip ` set (take (length vals) header)"
proof -
  have "fst ` set (pair_up header vals []) = dom (map_of (pair_up header vals []))"
    by (simp add: dom_map_of_conv_image_fst)
  also have "\<dots> = fst ` set (zip (map strip header) (map strip vals))"
    by (simp add: map_of_pair_up dom_map_of_conv_image_fst)
  also have "\<dots> = set (map fst (zip (map strip header) (map strip vals)))"
    by simp
  also have "\<dots> = strip ` set (take (length vals) header)"
    unfolding map_fst_zip_take by (simp add: take_map take_min_length)
  finally show ?thesis .
qed

lemma parse_spec_text: "parse_text spec_text = Inr spec_log"
  by (simp add: run spec_text_def spec_log_def cong: bind_weak_cong)

lemma parse_spec_sections:
  "split_sections (strip spec_text) = [spec_meta, spec_threads, spec_samples]"
  by (simp add: run spec_text_def spec_meta_def spec_threads_def spec_samples_def)

lemma parse_text_Inr:
  "parse_text content = Inr lg \<longleftrightarrow>
     (\<exists>s0 m s1 ts pcs.
        index (split_sections (strip content)) 0 = Inr s0 \<and>
        parse_meta s0 = Inr m \<and>
        index (split_sections (strip content)) 1 = Inr s1 \<and>
        parse_threads s1 = Inr ts \<and>
        (if length (split_sections (strip content)) > 2
         then parse_samples (split_sections (strip content) ! 2) else Inr []) = Inr pcs \<and>
        lg = \<lparr>meta = m, threads = ts, pc_samples = pcs\<rparr>)"
  unfolding parse_text_def Let_def bind_Inr by auto

text \<open>
  C8. When the first section has a header line \<open>h\<close> and a value line \<open>v\<close>, the parser
  reads it without an exception. The dictionary it builds maps each trimmed key to the
  trimmed value at the same position (for a key that occurs twice, the later position),
  both kept as text; when the trimmed keys are distinct it is exactly the list of those
  pairs in order. Every log the parser returns for the file has that dictionary as its
  \<open>meta\<close>.
\<close>

theorem meta_pairs:
  assumes "split_sections (strip content) = s0 # others"
    and "split_lines (strip s0) = h # v # ls"
  shows "\<exists>m. parse_meta s0 = Inr m
     \<and> map_of m = map_of (rev (zip (map strip (split_comma h)) (map strip (split_comma v))))
     \<and> (distinct (map strip (take (length (split_comma v)) (split_comma h))) \<longrightarrow>
          m = zip (map strip (split_comma h)) (map strip (split_comma v)))
     \<and> (\<forall>lg. parse_text content = Inr lg \<longrightarrow> meta lg = m)"
proof -
  let ?m = "pair_up (split_comma h) (split_comma v) []"
  have m: "parse_meta s0 = Inr ?m"
    using assms(2) by (simp add: parse_meta_def bind_Inr_left)
  have "meta lg = ?m" if "parse_text content = Inr lg" for lg
    using that m assms(1) unfolding parse_text_Inr by auto
  with m show ?thesis
    using map_of_pair_up [of "split_comma h" "split_comma v" "[]"]
      pair_up_distinct [of "split_comma v" "split_comma h"]
    by simp
qed

text \<open>The header \<^verbatim>\<open>pid,wall_ms,total_cpu_ms\<close> with the values \<^verbatim>\<open>123,45.5,40.2\<close>.\<close>

theorem meta_pairs_witness:
  "\<exists>lg. parse_text spec_text = Inr lg \<and>
     meta lg = [(''pid'', ''123''), (''wall_ms'', ''45.5''), (''total_cpu_ms'', ''40.2'')]"
proof -
  have l: "split_lines (strip spec_meta) = [''pid,wall_ms,total_cpu_ms'', ''123,45.5,40.2'']"
    by (simp add: run spec_meta_def)
  from meta_pairs [OF parse_spec_sections l] parse_spec_text show ?thesis
    by (simp add: run)
qed

text \<open>
  C4. When the second section has a header line \<open>h\<close> and the lines \<open>ls\<close> after it, the
  parser reads it without an exception, whatever the lengths of the rows, and returns
  one dictionary for each line, in the order of the file. The dictionary of a line pairs
  the trimmed header names with the trimmed values at the same positions and stops at
  the shorter of the two: its keys are the first header names, as many as the line has
  values, so the trailing keys of a short row are absent and the extra values of a long
  row are dropped. Every log the parser returns for the file has these rows as its
  \<open>threads\<close>.
\<close>

theorem thread_rows_positional:
  assumes "split_sections (strip content) = s0 # s1 # others"
    and "split_lines (strip s1) = h # ls"
  shows "\<exists>rows. parse_threads s1 = Inr rows \<and> length rows = length ls
     \<and> (\<forall>i < length ls.
          map_of (rows ! i)
            = map_of (rev (zip (map strip (split_comma h)) (map strip (split_comma (ls ! i)))))
          \<and> fst ` set (rows ! i) = strip ` set (take (length (split_comma (ls ! i))) (split_comma h))
          \<and> (distinct (map strip (take (length (split_comma (ls ! i))) (split_comma h))) \<longrightarrow>
               rows ! i = zip (map strip (split_comma h)) (map strip (split_comma (ls ! i)))))
     \<and> (\<forall>lg. parse_text content = Inr lg \<longrightarrow> threads lg = rows)"
proof -
  let ?rows = "map (\<lambda>line. pair_up (split_comma h) (split_comma line) []) ls"
  have r: "parse_threads s1 = Inr ?rows"
    using assms(2) by (simp add: parse_threads_def bind_Inr_left)
  have t: "threads lg = ?rows" if "parse_text content = Inr lg" for lg
    using that r assms(1) unfolding parse_text_Inr by auto
  have each: "map_of (?rows ! i)
            = map_of (rev (zip (map strip (split_comma h)) (map strip (split_comma (ls ! i)))))
          \<and> fst ` set (?rows ! i) = strip ` set (take (length (split_comma (ls ! i))) (split_comma h))
          \<and> (distinct (map strip (take (length (split_comma (ls ! i))) (split_comma h))) \<longrightarrow>
               ?rows ! i = zip (map strip (split_comma h)) (map strip (split_comma (ls ! i))))"
    if "i < length ls" for i
    using that map_of_pair_up [of "split_comma h" "split_comma (ls ! i)" "[]"]
      pair_up_keys [of "split_comma h" "split_comma (ls ! i)"]
      pair_up_distinct [of "split_comma (ls ! i)" "split_comma h"]
    by simp
  from r t each show ?thesis by simp
qed

text \<open>
  The thread table of the specification, followed by a row of two values and a row of
  five under a header of four names.
\<close>

theorem thread_rows_positional_witness:
  "\<exists>lg. parse_text spec_text = Inr lg \<and> length (threads lg) = 4
     \<and> map_of (threads lg ! 0) ''thread_id'' = Some ''0''
     \<and> map_of (threads lg ! 1) ''end_ms'' = Some ''12.0''
     \<and> threads lg ! 2 = [(''thread_id'', ''2''), (''tid'', ''1003'')]
     \<and> threads lg ! 3 = [(''thread_id'', ''3''), (''tid'', ''1004''), (''start_ms'', ''0.0''),
          (''end_ms'', ''9.0'')]"
proof -
  have l: "split_lines (strip spec_threads) =
     [''thread_id,tid,start_ms,end_ms'', ''0,1001,0.0,10.0'', ''1,1002,0.0,12.0'', ''2,1003'',
      ''3,1004,0.0,9.0,extra'']"
    by (simp add: run spec_threads_def)
  from thread_rows_positional [OF parse_spec_sections l] parse_spec_text
  obtain rows where rows: "threads spec_log = rows" "length rows = 4"
    and each: "\<forall>i<4.
          map_of (rows ! i)
            = map_of (rev (zip (map strip (split_comma ''thread_id,tid,start_ms,end_ms''))
                 (map strip (split_comma ([''0,1001,0.0,10.0'', ''1,1002,0.0,12.0'', ''2,1003'',
      ''3,1004,0.0,9.0,extra''] ! i)))))
          \<and> (distinct (map strip (take (length (split_comma ([''0,1001,0.0,10.0'', ''1,1002,0.0,12.0'', ''2,1003'',
      ''3,1004,0.0,9.0,extra''] ! i))) (split_comma ''thread_id,tid,start_ms,end_ms''))) \<longrightarrow>
               rows ! i = zip (map strip (split_comma ''thread_id,tid,start_ms,end_ms''))
                  (map strip (split_comma ([''0,1001,0.0,10.0'', ''1,1002,0.0,12.0'', ''2,1003'',
      ''3,1004,0.0,9.0,extra''] ! i))))"
    by auto
  from each have "map_of (rows ! 0) ''thread_id'' = Some ''0''"
    by (simp add: run)
  moreover from each have "map_of (rows ! 1) ''end_ms'' = Some ''12.0''"
    by (simp add: run)
  moreover from each have "rows ! 2 = [(''thread_id'', ''2''), (''tid'', ''1003'')]"
    by (simp add: run)
  moreover from each have "rows ! 3 = [(''thread_id'', ''3''), (''tid'', ''1004''), (''start_ms'', ''0.0''),
          (''end_ms'', ''9.0'')]"
    by (simp add: run)
  ultimately show ?thesis using rows parse_spec_text by simp
qed

lemma add_sample_Inr:
  assumes "int_field r ''thread_id'' = Inr t"
  shows "\<exists>pcs'. add_sample pcs r = Inr pcs' \<and>
           map_of pcs' = (map_of pcs)(t \<mapsto> (case map_of pcs t of None \<Rightarrow> [] | Some l \<Rightarrow> l) @ [r])"
  using assms
  by (cases "map_of pcs t") (simp_all add: add_sample_def bind_Inr_left Let_def update_conv')

lemma add_sample_Inl: "int_field r ''thread_id'' = Inl e \<Longrightarrow> add_sample pcs r = Inl e"
  by (simp add: add_sample_def bind_Inl_left)

lemma int_field_rejects:
  "map_of r name = Some s \<Longrightarrow> isl (py_int s) \<Longrightarrow> isl (int_field r name)"
  by (simp add: int_field_def getitem_def bind_Inr_left)

lemma add_samples_fail:
  "\<exists>r\<in>set rows. isl (int_field r ''thread_id'') \<Longrightarrow> isl (add_samples pcs rows)"
proof (induction rows arbitrary: pcs)
  case Nil
  then show ?case by simp
next
  case (Cons r rows)
  show ?case
  proof (cases "int_field r ''thread_id''")
    case (Inl e)
    then show ?thesis by (simp add: add_sample_Inl bind_Inl_left)
  next
    case (Inr t)
    from add_sample_Inr [OF Inr, of pcs] obtain pcs' where p: "add_sample pcs r = Inr pcs'"
      by blast
    from Inr Cons.prems have "\<exists>r\<in>set rows. isl (int_field r ''thread_id'')" by auto
    from Cons.IH [OF this, of pcs'] p show ?thesis by (simp add: bind_Inr_left)
  qed
qed

lemma add_samples_grouped:
  assumes "\<forall>r\<in>set rows. \<not> isl (int_field r ''thread_id'')"
  shows "\<exists>pcs'. add_samples pcs rows = Inr pcs' \<and>
     (\<forall>t. map_of pcs' t =
        (if [r \<leftarrow> rows. int_field r ''thread_id'' = Inr t] = [] then map_of pcs t
         else Some ((case map_of pcs t of None \<Rightarrow> [] | Some l \<Rightarrow> l)
                     @ [r \<leftarrow> rows. int_field r ''thread_id'' = Inr t])))"
  using assms
proof (induction rows arbitrary: pcs)
  case Nil
  then show ?case by simp
next
  case (Cons r rows)
  from Cons.prems obtain t where t: "int_field r ''thread_id'' = Inr t"
    by (cases "int_field r ''thread_id''") auto
  from add_sample_Inr [OF t, of pcs] obtain pcs1 where p1: "add_sample pcs r = Inr pcs1"
    and m1: "map_of pcs1 = (map_of pcs)(t \<mapsto> (case map_of pcs t of None \<Rightarrow> [] | Some l \<Rightarrow> l) @ [r])"
    by blast
  from Cons.prems have "\<forall>r\<in>set rows. \<not> isl (int_field r ''thread_id'')" by simp
  from Cons.IH [OF this, of pcs1] obtain pcs2 where p2: "add_samples pcs1 rows = Inr pcs2"
    and m2: "\<forall>u. map_of pcs2 u =
        (if [r \<leftarrow> rows. int_field r ''thread_id'' = Inr u] = [] then map_of pcs1 u
         else Some ((case map_of pcs1 u of None \<Rightarrow> [] | Some l \<Rightarrow> l)
                     @ [r \<leftarrow> rows. int_field r ''thread_id'' = Inr u]))"
    by blast
  have "add_samples pcs (r # rows) = Inr pcs2"
    using p1 p2 by (simp add: bind_Inr_left)
  moreover have "map_of pcs2 u =
        (if [x \<leftarrow> r # rows. int_field x ''thread_id'' = Inr u] = [] then map_of pcs u
         else Some ((case map_of pcs u of None \<Rightarrow> [] | Some l \<Rightarrow> l)
                     @ [x \<leftarrow> r # rows. int_field x ''thread_id'' = Inr u]))" for u
    using m2 [rule_format, of u] m1 t by (cases "u = t") auto
  ultimately show ?case by blast
qed

lemma filter_empty_iff: "filter P xs = [] \<longleftrightarrow> \<not> (\<exists>x\<in>set xs. P x)"
  by (simp add: filter_empty_conv)

text \<open>
  C5. Let \<open>rows\<close> be the dictionaries of the lines of the third section, in the order
  of the file. In every log the parser returns, \<open>pc_samples\<close> has an entry for a
  thread number exactly when some row has it as its \<^verbatim>\<open>thread_id\<close>, and the entry is the
  list of the rows of that thread in their order in the file. When some row has a
  \<^verbatim>\<open>thread_id\<close> that \<^verbatim>\<open>int\<close> rejects, the parser raises.
\<close>

theorem samples_grouped_by_thread:
  assumes "split_sections (strip content) = s0 # s1 # s2 # others"
    and "split_lines (strip s2) = h # ls"
    and "rows = map (\<lambda>line. pair_up (split_comma h) (split_comma line) []) ls"
  shows "(\<forall>lg. parse_text content = Inr lg \<longrightarrow>
            (\<forall>t. map_of (pc_samples lg) t =
               (if \<exists>r\<in>set rows. int_field r ''thread_id'' = Inr t
                then Some [r \<leftarrow> rows. int_field r ''thread_id'' = Inr t] else None)))
       \<and> ((\<exists>r\<in>set rows. \<exists>s. map_of r ''thread_id'' = Some s \<and> isl (py_int s)) \<longrightarrow>
            isl (parse_text content))"
proof -
  have ps: "parse_samples s2 = add_samples [] rows"
    using assms(2,3) by (simp add: parse_samples_def bind_Inr_left)
  have good: "map_of (pc_samples lg) t =
               (if \<exists>r\<in>set rows. int_field r ''thread_id'' = Inr t
                then Some [r \<leftarrow> rows. int_field r ''thread_id'' = Inr t] else None)"
    if "parse_text content = Inr lg" for lg t
  proof -
    from that assms(1) ps have a: "add_samples [] rows = Inr (pc_samples lg)"
      unfolding parse_text_Inr by auto
    have "\<forall>r\<in>set rows. \<not> isl (int_field r ''thread_id'')"
      using add_samples_fail [of rows "[]"] a by auto
    from add_samples_grouped [OF this, of "[]"] a show ?thesis
      by (auto simp add: filter_empty_iff)
  qed
  have bad: "isl (parse_text content)"
    if "\<exists>r\<in>set rows. \<exists>s. map_of r ''thread_id'' = Some s \<and> isl (py_int s)"
  proof -
    from that have "\<exists>r\<in>set rows. isl (int_field r ''thread_id'')"
      by (blast intro: int_field_rejects)
    from add_samples_fail [OF this, of "[]"] have f: "isl (parse_samples s2)"
      by (simp add: ps)
    show ?thesis
    proof (cases "parse_text content")
      case (Inl e)
      then show ?thesis by simp
    next
      case (Inr lg)
      with assms(1) f show ?thesis unfolding parse_text_Inr by auto
    qed
  qed
  from good bad show ?thesis by blast
qed

text \<open>
  Rows for the threads 0, 1, 0, 1: two lists of two rows each, nothing for thread 2. A
  row with the identifier \<^verbatim>\<open>main\<close> makes the parser raise.
\<close>

theorem samples_grouped_by_thread_witness:
  "(\<exists>lg. parse_text spec_text = Inr lg
      \<and> map_of (pc_samples lg) 0 =
          Some [[(''thread_id'', ''0''), (''timestamp_ms'', ''1.0'')],
                [(''thread_id'', ''0''), (''timestamp_ms'', ''2.0'')]]
      \<and> map_of (pc_samples lg) 1 =
          Some [[(''thread_id'', ''1''), (''timestamp_ms'', ''1.5'')],
                [(''thread_id'', ''1''), (''timestamp_ms'', ''2.5'')]]
      \<and> map_of (pc_samples lg) 2 = None)
   \<and> isl (parse_text bad_id_text)"
proof -
  have l: "split_lines (strip spec_samples) =
     [''thread_id,timestamp_ms'', ''0,1.0'', ''1,1.5'', ''0,2.0'', ''1,2.5'']"
    by (simp add: run spec_samples_def)
  have r: "[[(''thread_id'', ''0''), (''timestamp_ms'', ''1.0'')],
            [(''thread_id'', ''1''), (''timestamp_ms'', ''1.5'')],
            [(''thread_id'', ''0''), (''timestamp_ms'', ''2.0'')],
            [(''thread_id'', ''1''), (''timestamp_ms'', ''2.5'')]]
     = map (\<lambda>line. pair_up (split_comma ''thread_id,timestamp_ms'') (split_comma line) [])
         [''0,1.0'', ''1,1.5'', ''0,2.0'', ''1,2.5'']"
    by (simp add: run)
  have a: "\<exists>lg. parse_text spec_text = Inr lg
      \<and> map_of (pc_samples lg) 0 =
          Some [[(''thread_id'', ''0''), (''timestamp_ms'', ''1.0'')],
                [(''thread_id'', ''0''), (''timestamp_ms'', ''2.0'')]]
      \<and> map_of (pc_samples lg) 1 =
          Some [[(''thread_id'', ''1''), (''timestamp_ms'', ''1.5'')],
                [(''thread_id'', ''1''), (''timestamp_ms'', ''2.5'')]]
      \<and> map_of (pc_samples lg) 2 = None"
    using samples_grouped_by_thread [OF parse_spec_sections l r] parse_spec_text
    by (simp add: run)
  have s: "split_sections (strip bad_id_text) =
     [''pid,wall_ms,total_cpu_ms\<newline>123,45.5,40.2'',
      ''thread_id,tid\<newline>0,1001'',
      ''thread_id,timestamp_ms\<newline>0,1.0\<newline>main,1.5'']"
    by (simp add: run bad_id_text_def)
  have bl: "split_lines (strip ''thread_id,timestamp_ms\<newline>0,1.0\<newline>main,1.5'')
     = [''thread_id,timestamp_ms'', ''0,1.0'', ''main,1.5'']"
    by (simp add: run)
  have br: "[[(''thread_id'', ''0''), (''timestamp_ms'', ''1.0'')],
             [(''thread_id'', ''main''), (''timestamp_ms'', ''1.5'')]]
     = map (\<lambda>line. pair_up (split_comma ''thread_id,timestamp_ms'') (split_comma line) [])
         [''0,1.0'', ''main,1.5'']"
    by (simp add: run)
  have b: "isl (parse_text bad_id_text)"
    using samples_grouped_by_thread [OF s bl br]
    by (simp add: run)
  from a b show ?thesis by simp
qed

subsection \<open>A log without a sample trace\<close>

lemma parse_par_text: "parse_text par_text = Inr par_log_plain"
  by (simp add: run par_text_def par_log_plain_def par_log_def cong: bind_weak_cong)

lemma render_example_plain: "render decimal seq_log par_log_plain = Inr plain_chart"
  by (simp add: run seq_log_def par_log_plain_def par_log_def plain_chart_def example_chart_def
      cong: bind_weak_cong)

lemma mapM_Inr_set:
  "mapM f xs = Inr ys \<Longrightarrow> \<forall>y\<in>set ys. \<exists>x\<in>set xs. f x = Inr y"
proof (induction xs arbitrary: ys)
  case Nil
  then show ?case by simp
next
  case (Cons x xs)
  from Cons.prems obtain y ys' where y: "f x = Inr y" and ys': "mapM f xs = Inr ys'"
    and ys: "ys = y # ys'"
    by (auto simp add: bind_Inr)
  from Cons.IH [OF ys'] y ys show ?case by auto
qed

lemma render_par_rows:
  assumes "render fl seq par = Inr ch"
  shows "\<exists>(m :: metrics) base.
     mapM (panel_2b_thread fl (nt m) par) (threads par) = Inr (row2_par ch) \<and>
     mapM (panel_3b_thread fl base par) (threads par) = Inr (row3_par ch) \<and>
     mapM (panel_4b_thread fl par) (threads par) = Inr (row4_par ch)"
proof -
  from assms obtain m r1a r1b r2a r2b r3a base r3b r4a tb r4b where
    r2: "mapM (panel_2b_thread fl (nt m) par) (threads par) = Inr r2b"
    and r3: "mapM (panel_3b_thread fl base par) (threads par) = Inr r3b"
    and r4: "mapM (panel_4b_thread fl par) (threads par) = Inr r4b"
    and ch: "ch = \<lparr>numbers = m, row1_seq = r1a, row1_par = r1b, row2_seq = r2a,
              row2_idle = idle_cores (nt m), row2_par = r2b, row3_seq = r3a, row3_par = r3b,
              row4_seq = r4a, total_bytes = tb, throughput_seq = throughput_of tb (wall_seq m),
              row4_par = r4b, throughput_par = throughput_of tb (wall_par m)\<rparr>"
    unfolding render_Inr by blast
  have "mapM (panel_2b_thread fl (nt m) par) (threads par) = Inr (row2_par ch) \<and>
     mapM (panel_3b_thread fl base par) (threads par) = Inr (row3_par ch) \<and>
     mapM (panel_4b_thread fl par) (threads par) = Inr (row4_par ch)"
    using r2 r3 r4 by (simp add: ch)
  then show ?thesis by blast
qed

lemma no_samples_2b:
  "pc_samples lg = [] \<Longrightarrow> panel_2b_thread fl n lg t = Inr cb \<Longrightarrow> cs_marks cb = []"
  unfolding panel_2b_thread_def bind_Inr by auto

lemma no_samples_3b:
  "pc_samples lg = [] \<Longrightarrow>
     panel_3b_thread fl base lg t = bind (int_field t ''thread_id'') (\<lambda>tid. Inr None)"
  by (simp add: panel_3b_thread_def)

lemma no_samples_4b:
  "pc_samples lg = [] \<Longrightarrow>
     panel_4b_thread fl lg t =
       bind (int_field t ''thread_id'') (\<lambda>tid. bind (int_field t ''pixels'') (\<lambda>px. Inr None))"
  by (simp add: panel_4b_thread_def)

lemma no_samples_seq:
  assumes "pc_samples lg = []"
  shows "panel_2a fl lg = Inr None" "panel_3a fl lg = Inr None" "panel_4a fl lg = Inr None"
    "all_pc_base lg = Inr 0"
  using assms by (simp_all add: panel_2a_def panel_3a_def panel_4a_def all_pc_base_def bind_Inr_left)

text \<open>
  C6. A file with exactly two sections, the first with a header line and a value line, is
  parsed without an exception and its \<open>pc_samples\<close> is empty. Used as the sequential
  log, it makes the sample marks of row 2, the address curve of row 3 and the progress
  curve of row 4 return without drawing and without raising. Used as the parallel log,
  it gives the base address 0, and for each thread the address curve and the progress
  curve do nothing beyond reading \<^verbatim>\<open>thread_id\<close> and \<^verbatim>\<open>pixels\<close>, which the panels
  read for every thread. In every rendering that finishes, those parts of the figure are
  absent and no thread has a context-switch mark.
\<close>

theorem missing_trace_tolerated:
  assumes "split_sections (strip content) = [s0, s1]"
    and "split_lines (strip s0) = h # v # ls"
  shows "\<exists>lg. parse_text content = Inr lg \<and> pc_samples lg = []
     \<and> panel_2a fl lg = Inr None \<and> panel_3a fl lg = Inr None \<and> panel_4a fl lg = Inr None
     \<and> all_pc_base lg = Inr 0
     \<and> (\<forall>base t. panel_3b_thread fl base lg t
            = bind (int_field t ''thread_id'') (\<lambda>tid. Inr None))
     \<and> (\<forall>t. panel_4b_thread fl lg t
            = bind (int_field t ''thread_id'') (\<lambda>tid.
              bind (int_field t ''pixels'') (\<lambda>px. Inr None)))
     \<and> (\<forall>other ch. render fl lg other = Inr ch \<longrightarrow>
            row2_seq ch = None \<and> row3_seq ch = None \<and> row4_seq ch = None)
     \<and> (\<forall>other ch. render fl other lg = Inr ch \<longrightarrow>
            (\<forall>b\<in>set (row2_par ch). cs_marks b = []) \<and>
            (\<forall>l\<in>set (row3_par ch). l = None) \<and>
            (\<forall>p\<in>set (row4_par ch). p = None))"
proof -
  obtain h1 ls1 where l1: "split_lines (strip s1) = h1 # ls1"
    using split_lines_cases by blast
  define lg where "lg = \<lparr>meta = pair_up (split_comma h) (split_comma v) [],
     threads = map (\<lambda>line. pair_up (split_comma h1) (split_comma line) []) ls1,
     pc_samples = []\<rparr>"
  have p: "parse_text content = Inr lg"
    using assms l1
    by (simp add: parse_text_def parse_meta_def parse_threads_def bind_Inr_left lg_def)
  have e: "pc_samples lg = []"
    by (simp add: lg_def)
  have seq: "row2_seq ch = None \<and> row3_seq ch = None \<and> row4_seq ch = None"
    if "render fl lg other = Inr ch" for other ch
    using that no_samples_seq [OF e] unfolding render_Inr by auto
  have par: "(\<forall>b\<in>set (row2_par ch). cs_marks b = []) \<and>
            (\<forall>l\<in>set (row3_par ch). l = None) \<and>
            (\<forall>p\<in>set (row4_par ch). p = None)"
    if r: "render fl other lg = Inr ch" for other ch
  proof -
    from render_par_rows [OF r] obtain m :: metrics and base where
      r2: "mapM (panel_2b_thread fl (nt m) lg) (threads lg) = Inr (row2_par ch)"
      and r3: "mapM (panel_3b_thread fl base lg) (threads lg) = Inr (row3_par ch)"
      and r4: "mapM (panel_4b_thread fl lg) (threads lg) = Inr (row4_par ch)"
      by blast
    have a: "\<forall>b\<in>set (row2_par ch). cs_marks b = []"
      using mapM_Inr_set [OF r2] no_samples_2b [OF e] by blast
    have b: "\<forall>l\<in>set (row3_par ch). l = None"
      using mapM_Inr_set [OF r3] unfolding no_samples_3b [OF e] bind_Inr by auto
    have c: "\<forall>p\<in>set (row4_par ch). p = None"
      using mapM_Inr_set [OF r4] unfolding no_samples_4b [OF e] bind_Inr by auto
    from a b c show ?thesis by simp
  qed
  from p e no_samples_seq [OF e] no_samples_3b [OF e] no_samples_4b [OF e]
    seq par
  show ?thesis by blast
qed

text \<open>The two example files, one in each position.\<close>

theorem missing_trace_tolerated_witness:
  "(\<exists>lg. parse_text seq_text = Inr lg \<and> pc_samples lg = [] \<and> panel_3a decimal lg = Inr None
      \<and> (\<exists>ch. render decimal lg par_log = Inr ch \<and> row2_seq ch = None \<and> row3_seq ch = None
            \<and> row4_seq ch = None))
   \<and> (\<exists>lg. parse_text par_text = Inr lg \<and> pc_samples lg = [] \<and> all_pc_base lg = Inr 0
      \<and> (\<exists>ch. render decimal seq_log lg = Inr ch \<and> row3_par ch = [None, None]
            \<and> row4_par ch = [None, None] \<and> map cs_marks (row2_par ch) = [[], []]))"
proof -
  have s: "split_sections (strip seq_text) =
     [''pid,wall_ms,total_cpu_ms\<newline>123,100.0,98.5'',
      ''thread_id,tid,cpu_user_ms,cpu_sys_ms,pixels,stack_addr\<newline>'' @
      ''0,1001,97.0,1.5,1048576,0x7ffd1000'']"
    by (simp add: run seq_text_def)
  have l: "split_lines (strip ''pid,wall_ms,total_cpu_ms\<newline>123,100.0,98.5'')
     = [''pid,wall_ms,total_cpu_ms'', ''123,100.0,98.5'']"
    by (simp add: run)
  have s': "split_sections (strip par_text) =
     [''pid,num_threads,wall_ms,total_cpu_ms\<newline>124,2,25.0,44.0'',
      ''thread_id,tid,start_ms,end_ms,cpu_user_ms,pixels\<newline>'' @
      ''0,2001,0.0,24.0,22.0,524288\<newline>'' @
      ''1,2002,0.5,25.0,22.0,524288'']"
    by (simp add: run par_text_def)
  have l': "split_lines (strip ''pid,num_threads,wall_ms,total_cpu_ms\<newline>124,2,25.0,44.0'')
     = [''pid,num_threads,wall_ms,total_cpu_ms'', ''124,2,25.0,44.0'']"
    by (simp add: run)
  have a: "\<exists>lg. parse_text seq_text = Inr lg \<and> pc_samples lg = [] \<and> panel_3a decimal lg = Inr None
      \<and> (\<exists>ch. render decimal lg par_log = Inr ch \<and> row2_seq ch = None \<and> row3_seq ch = None
            \<and> row4_seq ch = None)"
    using missing_trace_tolerated [OF s l, of decimal] parse_seq_text render_example
    by auto
  have b: "\<exists>lg. parse_text par_text = Inr lg \<and> pc_samples lg = [] \<and> all_pc_base lg = Inr 0
      \<and> (\<exists>ch. render decimal seq_log lg = Inr ch \<and> row3_par ch = [None, None]
            \<and> row4_par ch = [None, None] \<and> map cs_marks (row2_par ch) = [[], []])"
    using missing_trace_tolerated [OF s' l', of decimal] parse_par_text render_example_plain
    by (auto simp add: plain_chart_def)
  from a b show ?thesis by simp
qed

end
